theory Spec2Isabelle
  imports Complex_Main
begin

section \<open>The continuous cart-pole environment\<close>

text \<open>
  A shallow embedding of the class \<open>CartPoleContinuousEnv\<close> of
  \<^verbatim>\<open>env/cartpole_continuous.py\<close>. The object is a record that every method
  takes and, where it assigns a field, returns updated. Python exceptions are
  values of the type \<open>error\<close>. Numbers are real numbers with the exact
  \<open>sin\<close> and \<open>cos\<close>: the rounding of the IEEE doubles of numpy is not
  modelled, so every statement below is about the formulas and the control
  flow of the code, read over the reals. One constant is kept as the double it
  is: \<open>np.pi\<close> in the angle wrap of \<open>_state_eq\<close>, where the angle is compared
  with it and the branch taken depends on it. Where \<open>np.pi\<close> only scales a
  value (the initial angle of \<open>_reset\<close>, the angle threshold of \<open>__init__\<close>)
  it is read as \<open>\<pi>\<close>, like every other rounded value.
\<close>

subsection \<open>Data\<close>

datatype error = ValueError | IndexError | ZeroDivisionError

text \<open>The state is the array of four numbers \<open>(x, x_dot, theta, theta_dot)\<close>;
  an action is a one-dimensional array; \<open>F_t\<close> is a two-dimensional array,
  given by its rows.\<close>

type_synonym state = "real \<times> real \<times> real \<times> real"
type_synonym action = "real list"
type_synonym matrix = "real list list"

text \<open>A \<open>spaces.Box\<close>: its lower and its upper bounds.\<close>

record box =
  low :: "real list"
  high :: "real list"

text \<open>The fields of the object, in the order in which \<open>__init__\<close> assigns
  them. The random generator and the viewer belong to libraries outside the
  repository and are opaque values here. \<open>state\<close> is \<open>None\<close> until the first
  reset.\<close>

record env =
  gravity :: real
  masscart :: real
  masspole :: real
  total_mass :: real
  length' :: real
  polemass_length :: real
  max_force :: real
  tau :: real
  b :: real
  I :: real
  F_t :: matrix
  theta_threshold_radians :: real
  x_threshold :: real
  action_space :: box
  observation_space :: box
  np_random :: nat
  viewer :: "nat option"
  state :: "state option"
  steps_beyond_done :: "int option"

subsection \<open>Construction\<close>

text \<open>\<open>np.finfo(np.float32).max\<close>, the largest finite single-precision number.\<close>

definition float32_max :: real where
  "float32_max = (2 ^ 24 - 1) * 2 ^ 104"

text \<open>
  \<open>__init__\<close>. The contents of the files \<^verbatim>\<open>G.txt\<close> and \<^verbatim>\<open>H.txt\<close> and the
  generator that \<open>_seed\<close> obtains are parameters: \<open>G\<close> is the two-dimensional
  array read from the first file, \<open>H\<close> the numbers of the second.
  \<open>reshape(4, 1)\<close> needs exactly four numbers, and \<open>np.concatenate\<close> along
  axis 1 needs \<open>G\<close> to have four rows; either raises \<open>ValueError\<close> otherwise.
\<close>

definition init :: "matrix \<Rightarrow> real list \<Rightarrow> nat \<Rightarrow> error + env" where
  "init G H rng =
    (if List.length H \<noteq> 4 then Inl ValueError
     else if List.length G \<noteq> 4 then Inl ValueError
     else
       let thr = 12 * 2 * pi / 360;
           xthr = 2.4;
           hi = [xthr * 2, float32_max, thr * 2, float32_max]
       in Inr \<lparr> gravity = 9.8,
                masscart = 0.5,
                masspole = 0.1,
                total_mass = 0.1 + 0.5,
                length' = 0.3,
                polemass_length = 0.1 * 0.3,
                max_force = 20.0,
                tau = 0.005,
                b = 0.1,
                I = 0.012,
                F_t = map2 (\<lambda>g h. g @ [h]) G H,
                theta_threshold_radians = thr,
                x_threshold = xthr,
                action_space = \<lparr> low = [- 20.0], high = [20.0] \<rparr>,
                observation_space = \<lparr> low = map uminus hi, high = hi \<rparr>,
                np_random = rng,
                viewer = None,
                state = None,
                steps_beyond_done = None \<rparr>)"

subsection \<open>The state transition\<close>

text \<open>The product of a two-dimensional array with a vector: numpy raises
  \<open>ValueError\<close> unless every row is as long as the vector.\<close>

definition dot :: "real list \<Rightarrow> real list \<Rightarrow> real" where
  "dot r v = sum_list (map2 (*) r v)"

definition matvec :: "matrix \<Rightarrow> real list \<Rightarrow> error + real list" where
  "matvec F v =
    (if list_all (\<lambda>r. List.length r = List.length v) F
     then Inr (map (\<lambda>r. dot r v) F)
     else Inl ValueError)"

text \<open>\<open>np.pi\<close>: the double nearest to \<open>\<pi>\<close>, which is
  \<open>884279719003555 / 2^48\<close> and lies a little below \<open>\<pi>\<close>.\<close>

definition np_pi :: real where
  "np_pi = 884279719003555 / 2 ^ 48"

text \<open>
  \<open>_state_eq\<close>. The product \<open>F_t @ states\<close> is computed first and can raise;
  its value \<open>result\<close> is bound and not used again. \<open>u[0]\<close> raises \<open>IndexError\<close>
  on an empty action. \<open>self.I / self.masspole\<close> divides two Python floats and
  raises \<open>ZeroDivisionError\<close> when the divisor is zero; the other divisions
  are numpy divisions, which do not raise.
\<close>

definition state_eq :: "env \<Rightarrow> state \<Rightarrow> action \<Rightarrow> error + state" where
  "state_eq self st u =
    (case st of (x, x_dot, theta, theta_dot) \<Rightarrow>
      let states = [x, x_dot, theta, theta_dot] @ u in
      (case matvec (F_t self) states of
        Inl e \<Rightarrow> Inl e
      | Inr result \<Rightarrow>
          let pre_theta = theta in
          (case u of
            [] \<Rightarrow> Inl IndexError
          | u0 # _ \<Rightarrow>
              let force = - u0;
                  costheta = cos theta;
                  sintheta = sin theta;
                  temp = (force + polemass_length self * theta_dot * theta_dot * sintheta
                            - b self * x_dot) / total_mass self
              in if masspole self = 0 then Inl ZeroDivisionError
                 else
                   let thetaacc = (gravity self * sintheta - costheta * temp)
                          / (I self / masspole self + length' self
                               - masspole self * costheta ^ 2 / total_mass self);
                       xacc = temp - polemass_length self * thetaacc * costheta / total_mass self;
                       x1 = x + tau self * x_dot;
                       x_dot1 = x_dot + tau self * xacc;
                       theta1 = theta + tau self * theta_dot;
                       theta_dot1 = theta_dot + tau self * thetaacc;
                       theta2 = (if pre_theta < np_pi \<and> theta1 \<ge> np_pi
                                 then theta1 - 2 * np_pi
                                 else if pre_theta > - np_pi \<and> theta1 \<le> - np_pi
                                 then theta1 + 2 * np_pi
                                 else theta1)
                   in Inr (x1, x_dot1, theta2, theta_dot1))))"

subsection \<open>Step and reset\<close>

text \<open>The text handed to \<open>logger.warning\<close>.\<close>

definition warning_msg :: string where
  "warning_msg = ''You are calling 'step()' even though this environment has already returned done = True. You should always call 'reset()' once you receive 'done = True' -- any further steps are undefined behavior.''"

text \<open>What a call of \<open>_step\<close> leaves behind and returns: the object after the
  call, the four returned values, and the warnings it logged.\<close>

record step_result =
  env_after :: env
  obs :: state
  reward :: real
  done' :: bool
  info :: "(string \<times> string) list"
  warnings :: "string list"

text \<open>
  \<open>_step\<close>. Before the first reset \<open>self.state\<close> is \<open>None\<close>, and
  \<open>np.concatenate\<close> raises \<open>ValueError\<close> on it. An exception of \<open>_state_eq\<close>
  leaves the object as it was, since nothing has been assigned yet.
\<close>

definition step :: "env \<Rightarrow> action \<Rightarrow> error + step_result" where
  "step self action =
    (case state self of
      None \<Rightarrow> Inl ValueError
    | Some st \<Rightarrow>
        (case state_eq self st action of
          Inl e \<Rightarrow> Inl e
        | Inr st' \<Rightarrow>
            let self1 = self\<lparr>state := Some st'\<rparr> in
            (case st' of (x, x_dot, theta, theta_dot) \<Rightarrow>
              let d = (x < - x_threshold self1
                       \<or> x > x_threshold self1
                       \<or> theta < - theta_threshold_radians self1
                       \<or> theta > theta_threshold_radians self1)
              in if \<not> d then
                   Inr \<lparr> env_after = self1, obs = st', reward = 1.0, done' = d,
                         info = [], warnings = [] \<rparr>
                 else
                   (case steps_beyond_done self1 of
                     None \<Rightarrow>
                       Inr \<lparr> env_after = self1\<lparr>steps_beyond_done := Some 0\<rparr>, obs = st',
                             reward = 1.0, done' = d, info = [], warnings = [] \<rparr>
                   | Some n \<Rightarrow>
                       Inr \<lparr> env_after = self1\<lparr>steps_beyond_done := Some (n + 1)\<rparr>, obs = st',
                             reward = 0.0, done' = d, info = [],
                             warnings = (if n = 0 then [warning_msg] else []) \<rparr>))))"

text \<open>\<open>_reset\<close>: the object after the call and the returned copy of the state.\<close>

definition reset :: "env \<Rightarrow> env \<times> state" where
  "reset self =
    (let s0 = (- 5.0, 0.0, 0.3 * pi, 0.0);
         self1 = self\<lparr>state := Some s0\<rparr>;
         self2 = self1\<lparr>steps_beyond_done := None\<rparr>
     in (self2, s0))"

text \<open>A sequence of \<open>_step\<close> calls on one object, one action each; the first
  exception ends it.\<close>

fun run :: "env \<Rightarrow> action list \<Rightarrow> error + step_result list" where
  "run self [] = Inr []"
| "run self (a # as) =
    (case step self a of
      Inl e \<Rightarrow> Inl e
    | Inr r \<Rightarrow>
        (case run (env_after r) as of
          Inl e \<Rightarrow> Inl e
        | Inr rs \<Rightarrow> Inr (r # rs)))"

text \<open>A caller's history on one object: any sequence of \<open>_step\<close> and
  \<open>_reset\<close> calls. A \<open>_step\<close> that raises leaves the object as it was, and
  the caller goes on with it.\<close>

datatype call = Step action | Reset

fun exec :: "env \<Rightarrow> call list \<Rightarrow> env" where
  "exec self [] = self"
| "exec self (Step a # cs) =
    (case step self a of
      Inl e \<Rightarrow> exec self cs
    | Inr r \<Rightarrow> exec (env_after r) cs)"
| "exec self (Reset # cs) = exec (fst (reset self)) cs"


text \<open>The pole angle of a state.\<close>

definition theta_of :: "state \<Rightarrow> real" where
  "theta_of s = (case s of (x, x_dot, theta, theta_dot) \<Rightarrow> theta)"

subsection \<open>The state transition as the specification words it\<close>

text \<open>
  The algorithm of the specification's section 4.1, written from its text and
  not from the code. Steps 1 to 5: the force is the negated action; \<open>temp\<close>,
  the angular and the linear acceleration by the three formulas given there;
  one explicit Euler step of size \<open>tau\<close> on all four components.
\<close>

definition euler_spec :: "env \<Rightarrow> state \<Rightarrow> real \<Rightarrow> state" where
  "euler_spec c s act =
    (case s of (x, x_dot, theta, theta_dot) \<Rightarrow>
      let force = - act;
          temp = (force + polemass_length c * theta_dot\<^sup>2 * sin theta - b c * x_dot)
                   / total_mass c;
          thetaacc = (gravity c * sin theta - cos theta * temp)
                       / (I c / masspole c + length' c
                            - masspole c * (cos theta)\<^sup>2 / total_mass c);
          xacc = temp - polemass_length c * thetaacc * cos theta / total_mass c
      in (x + tau c * x_dot, x_dot + tau c * xacc,
          theta + tau c * theta_dot, theta_dot + tau c * thetaacc))"

text \<open>
  Step 6, the angle wrap, read as two independent corrections of the angle
  after the Euler step: subtract \<open>2\<pi>\<close> when the angle before the step was
  below \<open>\<pi>\<close> and the angle after it is at least \<open>\<pi>\<close>; add \<open>2\<pi>\<close> in the
  symmetric case at \<open>-\<pi>\<close>. The \<open>\<pi>\<close> of this step is the program's constant
  for it, \<open>np_pi\<close>.
\<close>

definition wrap_spec :: "real \<Rightarrow> state \<Rightarrow> state" where
  "wrap_spec pre s =
    (case s of (x, x_dot, theta, theta_dot) \<Rightarrow>
      (x, x_dot,
       theta - (if pre < np_pi \<and> theta \<ge> np_pi then 2 * np_pi else 0)
             + (if pre > - np_pi \<and> theta \<le> - np_pi then 2 * np_pi else 0),
       theta_dot))"

definition advance_spec :: "env \<Rightarrow> state \<Rightarrow> real \<Rightarrow> state" where
  "advance_spec c s act = wrap_spec (theta_of s) (euler_spec c s act)"

subsection \<open>The frame of a call\<close>

text \<open>The fields that \<open>__init__\<close> sets and that configure the environment
  agree between two objects.\<close>

definition same_configuration :: "env \<Rightarrow> env \<Rightarrow> bool" where
  "same_configuration e e' \<longleftrightarrow>
     gravity e' = gravity e \<and> masscart e' = masscart e \<and> masspole e' = masspole e
   \<and> total_mass e' = total_mass e \<and> length' e' = length' e
   \<and> polemass_length e' = polemass_length e \<and> max_force e' = max_force e
   \<and> tau e' = tau e \<and> b e' = b e \<and> I e' = I e \<and> F_t e' = F_t e
   \<and> theta_threshold_radians e' = theta_threshold_radians e
   \<and> x_threshold e' = x_threshold e
   \<and> action_space e' = action_space e \<and> observation_space e' = observation_space e"

text \<open>The second object is the first with at most the state and the
  termination counter written.\<close>

definition only_state_written :: "env \<Rightarrow> env \<Rightarrow> bool" where
  "only_state_written e e' \<longleftrightarrow>
     e' = e\<lparr>state := state e', steps_beyond_done := steps_beyond_done e'\<rparr>"

subsection \<open>A concrete environment\<close>

text \<open>The environment constructed from an all-zero \<open>G\<close> (four by four) and
  \<open>H\<close>, and the same with an upright pole at rest on a cart at position \<open>x\<close>
  with velocity \<open>v\<close>. The action \<open>[- v / 10]\<close> cancels the friction of the
  cart, so that it keeps its velocity.\<close>

definition example_G :: matrix where
  "example_G = replicate 4 (replicate 4 0)"

definition example_H :: "real list" where
  "example_H = replicate 4 0"

definition example_env :: env where
  "example_env = projr (init example_G example_H 0)"

definition cart :: "real \<Rightarrow> real \<Rightarrow> int option \<Rightarrow> env" where
  "cart x v c = example_env\<lparr>state := Some (x, v, 0, 0), steps_beyond_done := c\<rparr>"

definition cart_result :: "real \<Rightarrow> real \<Rightarrow> int option \<Rightarrow> real \<Rightarrow> bool \<Rightarrow> string list \<Rightarrow> step_result" where
  "cart_result x v c r d w =
     \<lparr> env_after = cart x v c, obs = (x, v, 0, 0), reward = r, done' = d, info = [],
       warnings = w \<rparr>"


section \<open>Properties\<close>

subsection \<open>The double np.pi and the number pi\<close>

lemma np_pi_bounds: "0 < np_pi" "3 < np_pi" "np_pi < 4" "\<not> np_pi \<le> 0" "- np_pi < 0"
  by (simp_all add: np_pi_def)

text \<open>
  The sign of the sine just below and just above \<open>\<pi>\<close> places \<open>\<pi>\<close> between
  \<open>np_pi\<close> and \<open>np_pi + 0.005\<close>. Either sine is enclosed by its Maclaurin
  polynomial and the remainder bound; the odd powers of the argument are
  enclosed one after the other, in fractions with the denominator \<open>2^90\<close>.
\<close>

lemma sin_np_pi_pos: "0 < sin (np_pi)"
proof -
  define c where "c = np_pi"
  define p where "p m = c ^ m" for m :: nat
  have x: "c = 884279719003555 / 281474976710656"
    by (simp add: c_def np_pi_def)
  have y: "c\<^sup>2 = 781950621441006189802102638025 / 79228162514264337593543950336"
    unfolding x by (simp add: power_divide)
  have step: "p (m + 2) = p m * (781950621441006189802102638025 / 79228162514264337593543950336)" for m
    by (simp only: p_def power_add y)
  have b1: "p 1 = 884279719003555 / 281474976710656"
    by (simp add: p_def x)
  have b3: "4797988921462965649191492491 / 154742504910672534362390528 \<le> p 3 \<and> p 3 \<le> 38383911371703725193531939929 / 1237940039285380274899124224"
    by (simp add: p_def x power_divide)
  have b5: "378834020605190936808616202351 / 1237940039285380274899124224 \<le> p 5 \<and> p 5 \<le> 189417010302595468404308101181 / 618970019642690137449562112"
  proof -
    have "p 5 = p 3 * (781950621441006189802102638025 / 79228162514264337593543950336)"
      using step [of 3] by simp
    with b3 show ?thesis by simp
  qed
  have b7: "3738941917047368946719667042623 / 1237940039285380274899124224 \<le> p 7 \<and> p 7 \<le> 3738941917047368946719667042733 / 1237940039285380274899124224"
  proof -
    have "p 7 = p 5 * (781950621441006189802102638025 / 79228162514264337593543950336)"
      using step [of 5] by simp
    with b5 show ?thesis by simp
  qed
  have b9: "9225469399977048322656925181195 / 309485009821345068724781056 \<le> p 9 \<and> p 9 \<le> 36901877599908193290627700725867 / 1237940039285380274899124224"
  proof -
    have "p 9 = p 7 * (781950621441006189802102638025 / 79228162514264337593543950336)"
      using step [of 7] by simp
    with b7 show ?thesis by simp
  qed
  have b11: "45525866696064336764630109004999 / 154742504910672534362390528 \<le> p 11 \<and> p 11 \<le> 182103466784257347058520436025361 / 618970019642690137449562112"
  proof -
    have "p 11 = p 9 * (781950621441006189802102638025 / 79228162514264337593543950336)"
      using step [of 9] by simp
    with b9 show ?thesis by simp
  qed
  have b13: "3594578354455072008398661266904991 / 1237940039285380274899124224 \<le> p 13 \<and> p 13 \<le> 3594578354455072008398661267010893 / 1237940039285380274899124224"
  proof -
    have "p 13 = p 11 * (781950621441006189802102638025 / 79228162514264337593543950336)"
      using step [of 11] by simp
    with b11 show ?thesis by simp
  qed
  have b15: "35477066347190320441995784164489811 / 1237940039285380274899124224 \<le> p 15 \<and> p 15 \<le> 35477066347190320441995784165535023 / 1237940039285380274899124224"
  proof -
    have "p 15 = p 13 * (781950621441006189802102638025 / 79228162514264337593543950336)"
      using step [of 13] by simp
    with b13 show ?thesis by simp
  qed
  have b17: "2735504766859130741949447280267815 / 9671406556917033397649408 \<le> p 17 \<and> p 17 \<le> 175072305078984367484764625942298075 / 618970019642690137449562112"
  proof -
    have "p 17 = p 15 * (781950621441006189802102638025 / 79228162514264337593543950336)"
      using step [of 15] by simp
    with b15 show ?thesis by simp
  qed
  have b19: "3455788785432805701206555828662533535 / 1237940039285380274899124224 \<le> p 19 \<and> p 19 \<le> 3455788785432805701206555828764346697 / 1237940039285380274899124224"
  proof -
    have "p 19 = p 17 * (781950621441006189802102638025 / 79228162514264337593543950336)"
      using step [of 17] by simp
    with b17 show ?thesis by simp
  qed
  have b21: "34107268205942865692136269013056104181 / 1237940039285380274899124224 \<le> p 21 \<and> p 21 \<le> 17053634102971432846068134507030479907 / 618970019642690137449562112"
  proof -
    have "p 21 = p 19 * (781950621441006189802102638025 / 79228162514264337593543950336)"
      using step [of 19] by simp
    with b19 show ?thesis by simp
  qed
  have b23: "168312622197254416862149858841952397515 / 618970019642690137449562112 \<le> p 23 \<and> p 23 \<le> 336625244394508833724299717693822322609 / 1237940039285380274899124224"
  proof -
    have "p 23 = p 21 * (781950621441006189802102638025 / 79228162514264337593543950336)"
      using step [of 21] by simp
    with b21 show ?thesis by simp
  qed
  have b25: "3322357993593825073440195043784101439005 / 1237940039285380274899124224 \<le> p 25 \<and> p 25 \<le> 207647374599614067090012190242623969553 / 77371252455336267181195264"
  proof -
    have "p 25 = p 23 * (781950621441006189802102638025 / 79228162514264337593543950336)"
      using step [of 23] by simp
    with b23 show ?thesis by simp
  qed
  have b27: "8197589768892006129095422397210001343033 / 309485009821345068724781056 \<le> p 27 \<and> p 27 \<le> 32790359075568024516381689589806062718921 / 1237940039285380274899124224"
  proof -
    have "p 27 = p 25 * (781950621441006189802102638025 / 79228162514264337593543950336)"
      using step [of 25] by simp
    with b25 show ?thesis by simp
  qed
  have b29: "20226742015345408894293454988441373614647 / 77371252455336267181195264 \<le> p 29 \<and> p 29 \<le> 323627872245526542308695279824596581675927 / 1237940039285380274899124224"
  proof -
    have "p 29 = p 27 * (781950621441006189802102638025 / 79228162514264337593543950336)"
      using step [of 27] by simp
    with b27 show ?thesis by simp
  qed
  have s: "(\<Sum>m<30. sin_coeff m * c ^ m) = p 1 - p 3 / 6 + p 5 / 120 - p 7 / 5040 + p 9 / 362880 - p 11 / 39916800 + p 13 / 6227020800 - p 15 / 1307674368000 + p 17 / 355687428096000 - p 19 / 121645100408832000 + p 21 / 51090942171709440000 - p 23 / 25852016738884976640000 + p 25 / 15511210043330985984000000 - p 27 / 10888869450418352160768000000 + p 29 / 8841761993739701954543616000000"
    by (simp add: p_def sin_coeff_def lessThan_nat_numeral sum.lessThan_Suc fact_numeral)
  have e: "inverse (fact 30) * \<bar>c\<bar> ^ 30 \<le> 3832972609 / 1237940039285380274899124224"
  proof -
    have pos: "\<bar>c\<bar> = c"
      by (simp add: x)
    have pw: "c ^ 30 = p 29 * c"
      using power_add [of c 29 1] by (simp add: p_def)
    have "inverse (fact 30) * \<bar>c\<bar> ^ 30 = p 29 * c / 265252859812191058636308480000000"
      unfolding pos pw by (simp add: fact_numeral inverse_eq_divide)
    also have "\<dots> = p 29 * (884279719003555 / 281474976710656) / 265252859812191058636308480000000"
      by (simp only: x)
    also have "\<dots> \<le> 3832972609 / 1237940039285380274899124224"
      using b29 by simp
    finally show ?thesis .
  qed
  have m: "\<bar>sin c - (\<Sum>m<30. sin_coeff m * c ^ m)\<bar>
      \<le> inverse (fact 30) * \<bar>c\<bar> ^ 30"
    by (rule Maclaurin_sin_bound)
  from m e b1 b3 b5 b7 b9 b11 b13 b15 b17 b19 b21 b23 b25 b27 b29 have "0 < sin (c)"
    unfolding s by linarith
  then show ?thesis by (simp only: c_def)
qed

lemma sin_past_np_pi_neg: "sin (np_pi + 0.005) < 0"
proof -
  define c where "c = np_pi + 0.005"
  define p where "p m = c ^ m" for m :: nat
  have x: "c = 22142177347177707 / 7036874417766400"
    by (simp add: c_def np_pi_def)
  have y: "c\<^sup>2 = 490276017673869598228638237777849 / 49517601571415210995964968960000"
    unfolding x by (simp add: power_divide)
  have step: "p (m + 2) = p m * (490276017673869598228638237777849 / 49517601571415210995964968960000)" for m
    by (simp only: p_def power_add y)
  have b1: "p 1 = 22142177347177707 / 7036874417766400"
    by (simp add: p_def x)
  have b3: "38567472886096441200730976319 / 1237940039285380274899124224 \<le> p 3 \<and> p 3 \<le> 602616763845256893761421505 / 19342813113834066795298816"
    by (simp add: p_def x power_divide)
  have b5: "190929148608599453892073361725 / 618970019642690137449562112 \<le> p 5 \<and> p 5 \<le> 381858297217198907784146723461 / 1237940039285380274899124224"
  proof -
    have "p 5 = p 3 * (490276017673869598228638237777849 / 49517601571415210995964968960000)"
      using step [of 3] by simp
    with b3 show ?thesis by simp
  qed
  have b7: "1890398154738641728811336296039 / 618970019642690137449562112 \<le> p 7 \<and> p 7 \<le> 945199077369320864405668148047 / 309485009821345068724781056"
  proof -
    have "p 7 = p 5 * (490276017673869598228638237777849 / 49517601571415210995964968960000)"
      using step [of 5] by simp
    with b5 show ?thesis by simp
  qed
  have b9: "37433835634652867938242134361507 / 1237940039285380274899124224 \<le> p 9 \<and> p 9 \<le> 37433835634652867938242134362597 / 1237940039285380274899124224"
  proof -
    have "p 9 = p 7 * (490276017673869598228638237777849 / 49517601571415210995964968960000)"
      using step [of 7] by simp
    with b7 show ?thesis by simp
  qed
  have b11: "185317051702785789742457255360067 / 618970019642690137449562112 \<le> p 11 \<and> p 11 \<le> 370634103405571579484914510730927 / 1237940039285380274899124224"
  proof -
    have "p 11 = p 9 * (490276017673869598228638237777849 / 49517601571415210995964968960000)"
      using step [of 9] by simp
    with b9 show ?thesis by simp
  qed
  have b13: "917416264445577597109399580616351 / 309485009821345068724781056 \<le> p 13 \<and> p 13 \<le> 3669665057782310388437598322572267 / 1237940039285380274899124224"
  proof -
    have "p 13 = p 11 * (490276017673869598228638237777849 / 49517601571415210995964968960000)"
      using step [of 11] by simp
    with b11 show ?thesis by simp
  qed
  have b15: "9083380018576302136169253463707025 / 309485009821345068724781056 \<le> p 15 \<and> p 15 \<le> 36333520074305208544677013855886157 / 1237940039285380274899124224"
  proof -
    have "p 15 = p 13 * (490276017673869598228638237777849 / 49517601571415210995964968960000)"
      using step [of 13] by simp
    with b13 show ?thesis by simp
  qed
  have s: "(\<Sum>m<16. sin_coeff m * c ^ m) = p 1 - p 3 / 6 + p 5 / 120 - p 7 / 5040 + p 9 / 362880 - p 11 / 39916800 + p 13 / 6227020800 - p 15 / 1307674368000"
    by (simp add: p_def sin_coeff_def lessThan_nat_numeral sum.lessThan_Suc fact_numeral)
  have e: "inverse (fact 16) * \<bar>c\<bar> ^ 16 \<le> 5464222885994602370789 / 1237940039285380274899124224"
  proof -
    have pos: "\<bar>c\<bar> = c"
      by (simp add: x)
    have pw: "c ^ 16 = p 15 * c"
      using power_add [of c 15 1] by (simp add: p_def)
    have "inverse (fact 16) * \<bar>c\<bar> ^ 16 = p 15 * c / 20922789888000"
      unfolding pos pw by (simp add: fact_numeral inverse_eq_divide)
    also have "\<dots> = p 15 * (22142177347177707 / 7036874417766400) / 20922789888000"
      by (simp only: x)
    also have "\<dots> \<le> 5464222885994602370789 / 1237940039285380274899124224"
      using b15 by simp
    finally show ?thesis .
  qed
  have m: "\<bar>sin c - (\<Sum>m<16. sin_coeff m * c ^ m)\<bar>
      \<le> inverse (fact 16) * \<bar>c\<bar> ^ 16"
    by (rule Maclaurin_sin_bound)
  from m e b1 b3 b5 b7 b9 b11 b13 b15 have "sin (c) < 0"
    unfolding s by linarith
  then show ?thesis by (simp only: c_def)
qed

lemma np_pi_less_pi: "np_pi < pi"
proof (rule ccontr)
  assume "\<not> np_pi < pi"
  then have "pi \<le> np_pi" by simp
  moreover have "np_pi < 2 * pi"
    using np_pi_bounds(3) pi_ge_two by linarith
  ultimately have "sin np_pi \<le> 0"
    by (rule sin_le_zero)
  with sin_np_pi_pos show False by simp
qed

lemma pi_less_np_pi_step: "pi < np_pi + 0.005"
proof (rule ccontr)
  assume "\<not> pi < np_pi + 0.005"
  then have le: "np_pi + 0.005 \<le> pi" by simp
  have "0 \<le> np_pi + 0.005"
    using np_pi_bounds(1) by simp
  then have "0 \<le> sin (np_pi + 0.005)"
    using le by (rule sin_ge_zero)
  with sin_past_np_pi_neg show False by simp
qed

subsection \<open>Unfolding the state transition\<close>

lemma Suc4: "Suc (Suc (Suc (Suc n))) = 4 + n"
  by simp

lemma state_eq_Nil:
  "state_eq self st [] =
    (if list_all (\<lambda>r. List.length r = 4) (F_t self) then Inl IndexError else Inl ValueError)"
  by (simp add: state_eq_def matvec_def Suc4 split: prod.splits)

lemma state_eq_Cons:
  "state_eq self (x, x_dot, theta, theta_dot) (u0 # us) =
    (if \<not> list_all (\<lambda>r. List.length r = 5 + List.length us) (F_t self) then Inl ValueError
     else if masspole self = 0 then Inl ZeroDivisionError
     else
       let temp = (- u0 + polemass_length self * theta_dot * theta_dot * sin theta
                     - b self * x_dot) / total_mass self;
           thetaacc = (gravity self * sin theta - cos theta * temp)
                        / (I self / masspole self + length' self
                             - masspole self * (cos theta)\<^sup>2 / total_mass self);
           theta1 = theta + tau self * theta_dot
       in Inr (x + tau self * x_dot,
               x_dot + tau self * (temp - polemass_length self * thetaacc * cos theta / total_mass self),
               (if theta < np_pi \<and> theta1 \<ge> np_pi then theta1 - 2 * np_pi
                else if theta > - np_pi \<and> theta1 \<le> - np_pi then theta1 + 2 * np_pi
                else theta1),
               theta_dot + tau self * thetaacc))"
  by (simp add: state_eq_def matvec_def Let_def Suc4)

text \<open>The two branches of the wrap exclude each other, so the \<open>elif\<close> of the
  code and two independent corrections are the same.\<close>

lemma wrap_once:
  fixes t t1 :: real
  shows "(if t < np_pi \<and> t1 \<ge> np_pi then t1 - 2 * np_pi
          else if t > - np_pi \<and> t1 \<le> - np_pi then t1 + 2 * np_pi else t1)
       = t1 - (if t < np_pi \<and> t1 \<ge> np_pi then 2 * np_pi else 0)
            + (if t > - np_pi \<and> t1 \<le> - np_pi then 2 * np_pi else 0)"
proof -
  have "\<not> (np_pi \<le> t1 \<and> t1 \<le> - np_pi)"
    using np_pi_bounds(1) by linarith
  then show ?thesis by auto
qed

subsection \<open>The concrete environment\<close>

lemma init_example: "init example_G example_H 0 = Inr example_env"
  by (simp add: example_env_def init_def example_G_def example_H_def Let_def)

lemma example_env_fields:
  "F_t example_env = replicate 4 (replicate 5 0)"
  "gravity example_env = 9.8" "masspole example_env = 0.1" "total_mass example_env = 0.6"
  "length' example_env = 0.3" "polemass_length example_env = 0.03"
  "tau example_env = 0.005" "b example_env = 0.1" "I example_env = 0.012"
  "x_threshold example_env = 2.4" "theta_threshold_radians example_env = pi / 15"
  "state example_env = None" "steps_beyond_done example_env = None"
  by (simp_all add: example_env_def init_def example_G_def example_H_def Let_def numeral_eq_Suc)

lemma example_F_t_shape: "list_all (\<lambda>r. List.length r = 5) (F_t example_env)"
  by (simp add: example_env_fields numeral_eq_Suc)

lemma cart_fields:
  "F_t (cart x v c) = F_t example_env" "gravity (cart x v c) = 9.8" "masspole (cart x v c) = 0.1"
  "total_mass (cart x v c) = 0.6" "length' (cart x v c) = 0.3" "polemass_length (cart x v c) = 0.03"
  "tau (cart x v c) = 0.005" "b (cart x v c) = 0.1" "I (cart x v c) = 0.012"
  "x_threshold (cart x v c) = 2.4" "theta_threshold_radians (cart x v c) = pi / 15"
  "state (cart x v c) = Some (x, v, 0, 0)" "steps_beyond_done (cart x v c) = c"
  by (simp_all add: cart_def example_env_fields)

lemma state_eq_cart:
  "state_eq (cart x0 v0 c0) (x, v, 0, 0) [- (v / 10)] = Inr (x + v / 200, v, 0, 0)"
  using example_F_t_shape
  by (simp add: state_eq_Cons cart_fields Let_def np_pi_bounds)

lemma cart_state_update:
  "(cart x v c)\<lparr>state := Some (x', v', 0, 0)\<rparr> = cart x' v' c"
  "(cart x v c)\<lparr>steps_beyond_done := c'\<rparr> = cart x v c'"
  by (simp_all add: cart_def)

text \<open>One call of \<open>_step\<close> on the concrete environment, with the action that
  cancels the friction: the cart moves on by \<open>v / 200\<close>.\<close>

lemma step_cart:
  "step (cart x v c) [- (v / 10)] =
     (let x' = x + v / 200; d = (x' < - 2.4 \<or> x' > 2.4) in
      Inr (cart_result x' v
             (if d then (case c of None \<Rightarrow> Some 0 | Some n \<Rightarrow> Some (n + 1)) else c)
             (if d \<and> c \<noteq> None then 0 else 1) d
             (if d \<and> c = Some 0 then [warning_msg] else [])))"
  by (simp add: step_def state_eq_cart cart_fields(10-13) cart_state_update cart_result_def
      Let_def not_less split: option.splits)

lemma step_cart_1: "step (cart 2.1 40 None) [- 4] = Inr (cart_result 2.3 40 None 1 False [])"
  using step_cart [of "2.1" 40 None] by (simp add: Let_def)

lemma step_cart_2: "step (cart 2.3 40 None) [- 4] = Inr (cart_result 2.5 40 (Some 0) 1 True [])"
  using step_cart [of "2.3" 40 None] by (simp add: Let_def)



lemma step_cart_back:
  "step (cart 2.5 (- 40) (Some 0)) [4] = Inr (cart_result 2.3 (- 40) (Some 0) 1 False [])"
  using step_cart [of "2.5" "- 40" "Some 0"] by (simp add: Let_def)

lemma step_cart_to_edge:
  "step (cart 1.4 200 None) [- 20] = Inr (cart_result 2.4 200 None 1 False [])"
  using step_cart [of "1.4" 200 None] by (simp add: Let_def)

lemma state_eq_cart_out:
  "state_eq (cart 2.3 40 None) (2.3, 40, 0, 0) [- 4] = Inr (2.5, 40, 0, 0)"
  using state_eq_cart [of "2.3" 40 None "2.3" 40] by simp

lemma state_eq_cart_to_edge:
  "state_eq (cart 1.4 200 None) (1.4, 200, 0, 0) [- 20] = Inr (2.4, 200, 0, 0)"
  using state_eq_cart [of "1.4" 200 None "1.4" 200] by simp

text \<open>With the constants of \<open>__init__\<close> no division of \<open>_state_eq\<close> is by
  zero, whatever the angle: the real-valued quotients are those of the code.\<close>

lemma init_divisors:
  "init G H rng = Inr e \<Longrightarrow>
     masspole e \<noteq> 0 \<and> total_mass e \<noteq> 0
     \<and> 0 < I e / masspole e + length' e - masspole e * (cos t)\<^sup>2 / total_mass e"
proof -
  assume "init G H rng = Inr e"
  then have f: "masspole e = 0.1" "total_mass e = 0.6" "I e = 0.012" "length' e = 0.3"
    by (auto simp: init_def Let_def split: if_splits)
  have "(cos t)\<^sup>2 \<le> 1"
    using sin_cos_squared_add [of t] zero_le_power2 [of "sin t"] by linarith
  then show ?thesis by (simp add: f)
qed

subsection \<open>One call of step\<close>

lemma step_counter:
  "step e a = Inr r \<Longrightarrow>
     steps_beyond_done (env_after r) =
       (if done' r then (case steps_beyond_done e of None \<Rightarrow> Some 0 | Some n \<Rightarrow> Some (n + 1))
        else steps_beyond_done e)
   \<and> reward r = (if done' r \<and> steps_beyond_done e \<noteq> None then 0 else 1)
   \<and> warnings r = (if done' r \<and> steps_beyond_done e = Some 0 then [warning_msg] else [])"
  by (auto simp: step_def Let_def split: option.splits sum.splits prod.splits if_splits)

lemma step_done:
  "step e a = Inr r \<Longrightarrow> obs r = (x, xd, th, thd) \<Longrightarrow>
     state (env_after r) = Some (obs r) \<and>
     done' r = (x < - x_threshold e \<or> x > x_threshold e
                \<or> th < - theta_threshold_radians e \<or> th > theta_threshold_radians e)"
  by (auto simp: step_def Let_def split: option.splits sum.splits prod.splits if_splits)

lemma step_frame:
  "step e a = Inr r \<Longrightarrow>
     env_after r = e\<lparr>state := state (env_after r),
                      steps_beyond_done := steps_beyond_done (env_after r)\<rparr>"
  by (auto simp: step_def Let_def split: option.splits sum.splits prod.splits if_splits)

subsection \<open>A run of calls\<close>

lemma run_length: "run e as = Inr rs \<Longrightarrow> List.length rs = List.length as"
  by (induction as arbitrary: e rs) (auto split: sum.splits)




lemma cart_result_fields:
  "env_after (cart_result x v c r d w) = cart x v c" "obs (cart_result x v c r d w) = (x, v, 0, 0)"
  "reward (cart_result x v c r d w) = r" "done' (cart_result x v c r d w) = d"
  "warnings (cart_result x v c r d w) = w"
  by (simp_all add: cart_result_def)

subsection \<open>The angle wrap on the concrete environment\<close>

text \<open>The angle that \<open>_state_eq\<close> returns, whatever the other components
  are.\<close>

lemma state_eq_theta:
  "list_all (\<lambda>r. List.length r = 5 + List.length us) (F_t e) \<Longrightarrow> masspole e \<noteq> 0 \<Longrightarrow>
     map_sum id theta_of (state_eq e (x, xd, th, thd) (u0 # us)) =
       Inr (if th < np_pi \<and> th + tau e * thd \<ge> np_pi then th + tau e * thd - 2 * np_pi
            else if th > - np_pi \<and> th + tau e * thd \<le> - np_pi then th + tau e * thd + 2 * np_pi
            else th + tau e * thd)"
  by (simp add: state_eq_Cons Let_def theta_of_def)

text \<open>From the angle \<open>np_pi\<close> itself no branch of the wrap applies. From the
  angle \<open>0\<close>: an Euler angle of \<open>4\<close> is wrapped once; an Euler angle of
  exactly \<open>np_pi\<close> is sent to \<open>-np_pi\<close>; an Euler angle of \<open>11\<close>, more than
  a turn and a half, is corrected by one turn only and stays above \<open>\<pi>\<close>.\<close>

lemma state_eq_at_np_pi:
  "map_sum id theta_of (state_eq example_env (0, 0, np_pi, 1) [0]) = Inr (np_pi + 0.005)"
proof -
  have m: "masspole example_env \<noteq> 0"
    by (simp add: example_env_fields)
  have F: "list_all (\<lambda>r. List.length r = 5 + List.length ([] :: real list)) (F_t example_env)"
    using example_F_t_shape by simp
  have "\<not> np_pi + 5 / 1000 \<le> - np_pi"
    using np_pi_bounds(1) by linarith
  then show ?thesis
    unfolding state_eq_theta [OF F m] by (simp add: example_env_fields)
qed

lemma state_eq_wrapped_once:
  "state_eq example_env (0, 0, 0, 800) [0] = Inr (0, 0, 4 - 2 * np_pi, 800)"
proof -
  have "np_pi \<le> 4"
    using np_pi_bounds(3) by simp
  with example_F_t_shape show ?thesis
    by (simp add: state_eq_Cons example_env_fields Let_def np_pi_bounds)
qed

lemma state_eq_to_minus_np_pi:
  "state_eq example_env (0, 0, 0, 200 * np_pi) [0] = Inr (0, 0, - np_pi, 200 * np_pi)"
  using example_F_t_shape
  by (simp add: state_eq_Cons example_env_fields Let_def np_pi_bounds)

lemma state_eq_two_turns:
  "state_eq example_env (0, 0, 0, 2200) [0] = Inr (0, 0, 11 - 2 * np_pi, 2200)
   \<and> pi < 11 - 2 * np_pi"
proof -
  have "np_pi \<le> 11"
    using np_pi_bounds(3) by simp
  with example_F_t_shape
  have "state_eq example_env (0, 0, 0, 2200) [0] = Inr (0, 0, 11 - 2 * np_pi, 2200)"
    by (simp add: state_eq_Cons example_env_fields Let_def np_pi_bounds)
  moreover have "np_pi \<le> 7 / 2"
    by (simp add: np_pi_def)
  then have "pi < 11 - 2 * np_pi"
    using pi_less_4 by linarith
  ultimately show ?thesis by simp
qed

text \<open>The state that \<open>_step\<close> returns is the one \<open>_state_eq\<close> computed from
  the stored state.\<close>

lemma step_obs:
  "step e a = Inr r \<Longrightarrow> \<exists>st. state e = Some st \<and> state_eq e st a = Inr (obs r)"
  by (auto simp: step_def Let_def split: option.splits sum.splits prod.splits if_splits)

section \<open>The claims\<close>

subsection \<open>The state transition\<close>

text \<open>
  C1. For every state and every scalar action, \<open>_state_eq\<close> returns the state
  that the algorithm of the specification's section 4.1 gives: the negated
  action as force, \<open>temp\<close>, \<open>thetaacc\<close> and \<open>xacc\<close> by its formulas, the
  explicit Euler step of size \<open>tau\<close> on all four components, and its angle
  wrap. The configuration is one on which the call does not raise: the rows of
  \<open>F_t\<close> have five entries, as they have when \<open>G\<close> is four by four, and
  \<open>masspole\<close> is not zero.
\<close>

theorem state_eq_follows_spec:
  "list_all (\<lambda>r. List.length r = 5) (F_t e) \<Longrightarrow> masspole e \<noteq> 0 \<Longrightarrow>
     state_eq e s [a] = Inr (advance_spec e s a)"
proof -
  assume F: "list_all (\<lambda>r. List.length r = 5) (F_t e)" and m: "masspole e \<noteq> 0"
  obtain x x_dot theta theta_dot where s: "s = (x, x_dot, theta, theta_dot)"
    by (cases s) auto
  have sq: "polemass_length e * theta_dot * theta_dot = polemass_length e * theta_dot\<^sup>2"
    by (simp add: power2_eq_square)
  show ?thesis
    unfolding s state_eq_Cons advance_spec_def wrap_spec_def euler_spec_def theta_of_def
      Let_def prod.case wrap_once sq
    using F m by simp
qed

theorem state_eq_follows_spec_witness:
  "list_all (\<lambda>r. List.length r = 5) (F_t example_env) \<and> masspole example_env \<noteq> 0
   \<and> state_eq example_env (- 5, 0, 0.3 * pi, 0) [0]
       = Inr (advance_spec example_env (- 5, 0, 0.3 * pi, 0) 0)"
proof -
  have m: "masspole example_env \<noteq> 0"
    by (simp add: example_env_fields)
  from state_eq_follows_spec [OF example_F_t_shape m] example_F_t_shape m
  show ?thesis by blast
qed

text \<open>Where the Euler angle stays strictly inside \<open>(-np_pi, np_pi)\<close> the wrap
  does nothing, and the next state is the Euler update itself.\<close>

lemma advance_spec_no_crossing:
  "- np_pi < theta_of (euler_spec c s a) \<Longrightarrow> theta_of (euler_spec c s a) < np_pi \<Longrightarrow>
     advance_spec c s a = euler_spec c s a"
  by (cases "euler_spec c s a") (simp add: advance_spec_def wrap_spec_def theta_of_def)

text \<open>
  C7. Determinism: the result of \<open>_state_eq\<close> is a function of the state, the
  action and the configuration constants it reads. Two objects that agree on
  these constants give the same result on the same state and action, however
  they differ elsewhere: in the random generator, the viewer, the stored state
  or the termination counter.
\<close>

theorem state_eq_deterministic:
  "gravity e1 = gravity e2 \<Longrightarrow> masspole e1 = masspole e2 \<Longrightarrow> total_mass e1 = total_mass e2 \<Longrightarrow>
   length' e1 = length' e2 \<Longrightarrow> polemass_length e1 = polemass_length e2 \<Longrightarrow> tau e1 = tau e2 \<Longrightarrow>
   b e1 = b e2 \<Longrightarrow> I e1 = I e2 \<Longrightarrow> F_t e1 = F_t e2 \<Longrightarrow>
     state_eq e1 st u = state_eq e2 st u"
  by (simp add: state_eq_def Let_def split: prod.splits sum.splits list.splits)

theorem state_eq_deterministic_witness:
  "state_eq example_env (- 5, 0, 0.3 * pi, 0) [0]
     = state_eq (example_env\<lparr>np_random := 7, viewer := Some 1, state := Some (0, 0, 0, 0),
                              steps_beyond_done := Some 3\<rparr>) (- 5, 0, 0.3 * pi, 0) [0]"
  by (rule state_eq_deterministic) simp_all

text \<open>
  C8. The loaded linear model does not interfere: two runs of \<open>_state_eq\<close>
  that differ only in \<open>F_t\<close>, both of a shape compatible with the state and
  the action, return the same result. The product is computed and its value
  is dropped.
\<close>

theorem state_eq_ignores_F_t:
  "list_all (\<lambda>r. List.length r = 4 + List.length u) F1 \<Longrightarrow>
   list_all (\<lambda>r. List.length r = 4 + List.length u) F2 \<Longrightarrow>
     state_eq (e\<lparr>F_t := F1\<rparr>) st u = state_eq (e\<lparr>F_t := F2\<rparr>) st u"
proof -
  assume F: "list_all (\<lambda>r. List.length r = 4 + List.length u) F1"
    "list_all (\<lambda>r. List.length r = 4 + List.length u) F2"
  obtain x x_dot theta theta_dot where st: "st = (x, x_dot, theta, theta_dot)"
    by (cases st) auto
  show ?thesis
  proof (cases u)
    case Nil
    with F show ?thesis by (simp add: state_eq_Nil)
  next
    case (Cons u0 us)
    with F show ?thesis by (simp add: st state_eq_Cons)
  qed
qed

theorem state_eq_ignores_F_t_witness:
  "list_all (\<lambda>r. List.length r = 4 + List.length [0::real]) (replicate 4 (replicate 5 0))
   \<and> list_all (\<lambda>r. List.length r = 4 + List.length [0::real]) (replicate 4 (replicate 5 1))
   \<and> state_eq (example_env\<lparr>F_t := replicate 4 (replicate 5 0)\<rparr>) (- 5, 0, 0.3 * pi, 0) [0]
       = state_eq (example_env\<lparr>F_t := replicate 4 (replicate 5 1)\<rparr>) (- 5, 0, 0.3 * pi, 0) [0]"
proof -
  have F1: "list_all (\<lambda>r. List.length r = 4 + List.length [0::real]) (replicate 4 (replicate 5 0))"
    by (simp add: numeral_eq_Suc)
  have F2: "list_all (\<lambda>r. List.length r = 4 + List.length [0::real]) (replicate 4 (replicate 5 1))"
    by (simp add: numeral_eq_Suc)
  from state_eq_ignores_F_t [OF F1 F2] F1 F2 show ?thesis by blast
qed

text \<open>A matrix of another width makes the call raise, so the shape itself is
  not ignored.\<close>

lemma state_eq_wrong_shape:
  "state_eq (example_env\<lparr>F_t := replicate 4 (replicate 4 0)\<rparr>) (- 5, 0, 0.3 * pi, 0) [0]
     = Inl ValueError"
  by (simp add: state_eq_Cons numeral_eq_Suc)

subsection \<open>Reset\<close>

text \<open>
  C5. After any history of \<open>_step\<close> and \<open>_reset\<close> calls, from any object,
  \<open>_reset\<close> stores exactly the state \<open>(-5.0, 0.0, 0.3\<pi>, 0.0)\<close>, sets the
  termination counter to \<open>None\<close>, and returns that state.
\<close>

theorem reset_after_any_history:
  "state (fst (reset (exec e0 cs))) = Some (- 5.0, 0.0, 0.3 * pi, 0.0)
   \<and> steps_beyond_done (fst (reset (exec e0 cs))) = None
   \<and> snd (reset (exec e0 cs)) = (- 5.0, 0.0, 0.3 * pi, 0.0)"
  by (simp add: reset_def Let_def)

subsection \<open>Step: termination and reward\<close>

text \<open>
  C3. Every call of \<open>_step\<close> on a stored state from which \<open>_state_eq\<close>
  computes a post-step state returns; it returns and stores that post-step
  state, and its flag \<open>done\<close> is true exactly when the post-step state has
  \<open>x < -x_threshold\<close> or \<open>x > x_threshold\<close> or
  \<open>theta < -theta_threshold_radians\<close> or \<open>theta > theta_threshold_radians\<close>.
  The comparisons are strict: a post-step state inside the closed box, its
  boundary included, is not done. Conversely every call that returns is such
  a call: what it returns is what \<open>_state_eq\<close> computed from the stored
  state.
\<close>

theorem done_iff_outside_thresholds:
  "(state e = Some st \<and> state_eq e st a = Inr (x, xd, th, thd) \<longrightarrow>
      (\<exists>r. step e a = Inr r \<and> obs r = (x, xd, th, thd)
         \<and> state (env_after r) = Some (x, xd, th, thd)
         \<and> (done' r \<longleftrightarrow> x < - x_threshold e \<or> x > x_threshold e
                        \<or> th < - theta_threshold_radians e \<or> th > theta_threshold_radians e)
         \<and> (\<not> done' r \<longleftrightarrow> - x_threshold e \<le> x \<and> x \<le> x_threshold e
                        \<and> - theta_threshold_radians e \<le> th
                        \<and> th \<le> theta_threshold_radians e)))
   \<and> (step e a = Inr r' \<longrightarrow>
        (\<exists>st'. state e = Some st' \<and> state_eq e st' a = Inr (obs r')))"
proof (intro conjI impI)
  assume "state e = Some st \<and> state_eq e st a = Inr (x, xd, th, thd)"
  then have st: "state e = Some st" and eq: "state_eq e st a = Inr (x, xd, th, thd)"
    by simp_all
  from st eq have "\<exists>r. step e a = Inr r \<and> obs r = (x, xd, th, thd)"
    by (simp add: step_def Let_def split: option.splits)
  then obtain r where r: "step e a = Inr r" and o: "obs r = (x, xd, th, thd)"
    by blast
  from step_done [OF r o] r o
  show "\<exists>r. step e a = Inr r \<and> obs r = (x, xd, th, thd)
         \<and> state (env_after r) = Some (x, xd, th, thd)
         \<and> (done' r \<longleftrightarrow> x < - x_threshold e \<or> x > x_threshold e
                        \<or> th < - theta_threshold_radians e \<or> th > theta_threshold_radians e)
         \<and> (\<not> done' r \<longleftrightarrow> - x_threshold e \<le> x \<and> x \<le> x_threshold e
                        \<and> - theta_threshold_radians e \<le> th
                        \<and> th \<le> theta_threshold_radians e)"
    by (intro exI [of _ r]) auto
next
  assume "step e a = Inr r'"
  then show "\<exists>st'. state e = Some st' \<and> state_eq e st' a = Inr (obs r')"
    by (rule step_obs)
qed

theorem done_iff_outside_thresholds_witness:
  "state (cart 2.3 40 None) = Some (2.3, 40, 0, 0)
   \<and> state_eq (cart 2.3 40 None) (2.3, 40, 0, 0) [- 4] = Inr (2.5, 40, 0, 0)
   \<and> step (cart 2.3 40 None) [- 4] = Inr (cart_result 2.5 40 (Some 0) 1 True [])
   \<and> obs (cart_result 2.5 40 (Some 0) 1 True []) = (2.5, 40, 0, 0)
   \<and> x_threshold (cart 2.3 40 None) < 2.5
   \<and> done' (cart_result 2.5 40 (Some 0) 1 True [])
   \<and> state (cart 1.4 200 None) = Some (1.4, 200, 0, 0)
   \<and> state_eq (cart 1.4 200 None) (1.4, 200, 0, 0) [- 20] = Inr (2.4, 200, 0, 0)
   \<and> step (cart 1.4 200 None) [- 20] = Inr (cart_result 2.4 200 None 1 False [])
   \<and> obs (cart_result 2.4 200 None 1 False []) = (2.4, 200, 0, 0)
   \<and> x_threshold (cart 1.4 200 None) = 2.4
   \<and> \<not> done' (cart_result 2.4 200 None 1 False [])"
proof -
  have s1: "state (cart 2.3 40 None) = Some (2.3, 40, 0, 0)"
    and s2: "state (cart 1.4 200 None) = Some (1.4, 200, 0, 0)"
    by (simp_all add: cart_fields)
  from done_iff_outside_thresholds
    [of "cart 2.3 40 None" "(2.3, 40, 0, 0)" "[- 4]" "2.5" 40 0 0, THEN conjunct1, rule_format,
      OF conjI [OF s1 state_eq_cart_out]]
  obtain r1 where r1: "step (cart 2.3 40 None) [- 4] = Inr r1"
    and o1: "obs r1 = (2.5, 40, 0, 0)"
    and d1: "done' r1 \<longleftrightarrow> 2.5 < - x_threshold (cart 2.3 40 None)
        \<or> 2.5 > x_threshold (cart 2.3 40 None)
        \<or> 0 < - theta_threshold_radians (cart 2.3 40 None)
        \<or> 0 > theta_threshold_radians (cart 2.3 40 None)"
    by blast
  from done_iff_outside_thresholds
    [of "cart 1.4 200 None" "(1.4, 200, 0, 0)" "[- 20]" "2.4" 200 0 0, THEN conjunct1, rule_format,
      OF conjI [OF s2 state_eq_cart_to_edge]]
  obtain r2 where r2: "step (cart 1.4 200 None) [- 20] = Inr r2"
    and o2: "obs r2 = (2.4, 200, 0, 0)"
    and d2: "\<not> done' r2 \<longleftrightarrow> - x_threshold (cart 1.4 200 None) \<le> 2.4
        \<and> 2.4 \<le> x_threshold (cart 1.4 200 None)
        \<and> - theta_threshold_radians (cart 1.4 200 None) \<le> 0
        \<and> 0 \<le> theta_threshold_radians (cart 1.4 200 None)"
    by blast
  from r1 step_cart_2 have e1: "r1 = cart_result 2.5 40 (Some 0) 1 True []"
    by simp
  from r2 step_cart_to_edge have e2: "r2 = cart_result 2.4 200 None 1 False []"
    by simp
  from d1 have "done' r1"
    by (simp add: cart_fields)
  moreover from d2 have "\<not> done' r2"
    by (simp add: cart_fields)
  ultimately show ?thesis
    using r1 o1 r2 o2 s1 s2 state_eq_cart_out state_eq_cart_to_edge
    unfolding e1 e2 by (simp add: cart_fields)
qed

text \<open>
  C2, as stated, is about the state before the call: from every state with
  \<open>x\<close> and \<open>theta\<close> strictly inside the thresholds one call returns reward
  \<open>1.0\<close> and \<open>done = false\<close>. The flag is computed from the state after the
  integration step, so a fast cart leaves the box within the call: from
  \<open>x = 2.3\<close> with velocity \<open>40\<close> and an upright pole, the call reaches
  \<open>x = 2.5\<close> and returns \<open>done = true\<close>.
\<close>

theorem inside_before_done_after:
  "state (cart 2.3 40 None) = Some (2.3, 40, 0, 0)
   \<and> - x_threshold (cart 2.3 40 None) < 2.3 \<and> 2.3 < x_threshold (cart 2.3 40 None)
   \<and> - theta_threshold_radians (cart 2.3 40 None) < 0
   \<and> 0 < theta_threshold_radians (cart 2.3 40 None)
   \<and> step (cart 2.3 40 None) [- 4] = Inr (cart_result 2.5 40 (Some 0) 1 True [])
   \<and> done' (cart_result 2.5 40 (Some 0) 1 True [])"
  by (simp add: step_cart_2 cart_fields cart_result_fields)

text \<open>
  C2, amended. For every call of \<open>_step\<close> whose post-step state has \<open>x\<close>
  strictly inside \<open>(-x_threshold, x_threshold)\<close> and \<open>theta\<close> strictly inside
  \<open>(-theta_threshold_radians, theta_threshold_radians)\<close>, the call returns
  reward \<open>1.0\<close> and \<open>done = false\<close>, for every action and every value of the
  termination counter.
\<close>

theorem alive_after_step:
  "step e a = Inr r \<Longrightarrow> obs r = (x, xd, th, thd) \<Longrightarrow>
   - x_threshold e < x \<Longrightarrow> x < x_threshold e \<Longrightarrow>
   - theta_threshold_radians e < th \<Longrightarrow> th < theta_threshold_radians e \<Longrightarrow>
     reward r = 1 \<and> \<not> done' r"
proof -
  assume s: "step e a = Inr r" and o: "obs r = (x, xd, th, thd)"
    and b: "- x_threshold e < x" "x < x_threshold e"
      "- theta_threshold_radians e < th" "th < theta_threshold_radians e"
  from step_done [OF s o] b have "\<not> done' r" by auto
  with step_counter [OF s] show ?thesis by simp
qed

theorem alive_after_step_witness:
  "step (cart 2.1 40 None) [- 4] = Inr (cart_result 2.3 40 None 1 False [])
   \<and> obs (cart_result 2.3 40 None 1 False []) = (2.3, 40, 0, 0)
   \<and> - x_threshold (cart 2.1 40 None) < 2.3 \<and> 2.3 < x_threshold (cart 2.1 40 None)
   \<and> - theta_threshold_radians (cart 2.1 40 None) < 0
   \<and> 0 < theta_threshold_radians (cart 2.1 40 None)
   \<and> reward (cart_result 2.3 40 None 1 False []) = 1
   \<and> \<not> done' (cart_result 2.3 40 None 1 False [])"
proof -
  have o: "obs (cart_result 2.3 40 None 1 False []) = (2.3, 40, 0, 0)"
    by (simp add: cart_result_fields)
  have b: "- x_threshold (cart 2.1 40 None) < 2.3" "2.3 < x_threshold (cart 2.1 40 None)"
    "- theta_threshold_radians (cart 2.1 40 None) < 0"
    "0 < theta_threshold_radians (cart 2.1 40 None)"
    by (simp_all add: cart_fields)
  from alive_after_step [OF step_cart_1 o b] step_cart_1 o b
  show ?thesis by blast
qed

text \<open>
  C9. A call of \<open>_step\<close> moves the termination counter only from \<open>None\<close> to
  \<open>0\<close> and from \<open>n\<close> to \<open>n + 1\<close>, both only when the post-step state is
  done, and leaves it unchanged otherwise; it never sets a counter back to
  \<open>None\<close>. A call that is not done returns reward \<open>1.0\<close> also when the
  counter is set, as after re-entering the box. A reset clears the counter.
\<close>

theorem counter_transitions:
  "step e a = Inr r \<Longrightarrow>
     steps_beyond_done (env_after r) =
       (if done' r then (case steps_beyond_done e of None \<Rightarrow> Some 0 | Some n \<Rightarrow> Some (n + 1))
        else steps_beyond_done e)
   \<and> (steps_beyond_done e \<noteq> None \<longrightarrow> steps_beyond_done (env_after r) \<noteq> None)
   \<and> (\<not> done' r \<longrightarrow> reward r = 1)
   \<and> steps_beyond_done (fst (reset (env_after r))) = None"
  using step_counter [of e a r] by (auto simp: reset_def Let_def split: option.splits)

theorem counter_transitions_witness:
  "step (cart 2.5 (- 40) (Some 0)) [4] = Inr (cart_result 2.3 (- 40) (Some 0) 1 False [])
   \<and> steps_beyond_done (cart 2.5 (- 40) (Some 0)) = Some 0
   \<and> \<not> done' (cart_result 2.3 (- 40) (Some 0) 1 False [])
   \<and> reward (cart_result 2.3 (- 40) (Some 0) 1 False []) = 1
   \<and> steps_beyond_done (env_after (cart_result 2.3 (- 40) (Some 0) 1 False [])) = Some 0"
  using counter_transitions [OF step_cart_back] step_cart_back
  by (simp add: cart_fields cart_result_fields)

subsection \<open>Frame\<close>

text \<open>
  C10. Every call of \<open>_step\<close> that returns, and every call of \<open>_reset\<close>,
  leaves the configuration fields of the object unchanged (gravity, masscart,
  masspole, total_mass, length, polemass_length, max_force, tau, b, I, F_t,
  the two thresholds and the two spaces); the object after the call is the
  object before it with at most the state and the termination counter
  written. A call of \<open>_step\<close> that raises has assigned nothing.
\<close>

theorem calls_write_only_state_and_counter:
  "(step e a = Inr r \<longrightarrow>
      same_configuration e (env_after r) \<and> only_state_written e (env_after r))
   \<and> same_configuration e (fst (reset e)) \<and> only_state_written e (fst (reset e))"
proof -
  have w: "only_state_written e e' \<Longrightarrow> same_configuration e e'" for e'
  proof -
    assume "only_state_written e e'"
    then have "e' = e\<lparr>state := state e', steps_beyond_done := steps_beyond_done e'\<rparr>"
      by (simp add: only_state_written_def)
    then have "same_configuration e e' =
        same_configuration e (e\<lparr>state := state e', steps_beyond_done := steps_beyond_done e'\<rparr>)"
      by simp
    then show ?thesis by (simp add: same_configuration_def)
  qed
  have s: "only_state_written e (env_after r)" if "step e a = Inr r"
    using step_frame [OF that] by (simp add: only_state_written_def)
  have r: "only_state_written e (fst (reset e))"
    by (simp add: only_state_written_def reset_def Let_def)
  from w s r show ?thesis by blast
qed

theorem calls_write_only_state_and_counter_witness:
  "step (cart 2.1 40 None) [- 4] = Inr (cart_result 2.3 40 None 1 False [])
   \<and> same_configuration (cart 2.1 40 None) (env_after (cart_result 2.3 40 None 1 False []))
   \<and> only_state_written (cart 2.1 40 None) (env_after (cart_result 2.3 40 None 1 False []))"
  using calls_write_only_state_and_counter [of "cart 2.1 40 None" "[- 4]" "cart_result 2.3 40 None 1 False []"]
    step_cart_1
  by blast

subsection \<open>Reward sequencing\<close>



subsection \<open>The angle wrap\<close>

text \<open>
  C6, as stated, says that the angle of the state produced by a step lies in
  \<open>(-\<pi>, \<pi>]\<close> for every input state and action. The wrap corrects only a
  crossing of \<open>np.pi\<close> from strictly below (or of \<open>-np.pi\<close> from strictly
  above): from the angle \<open>np.pi\<close>, a double inside the interval, with angular
  velocity \<open>1\<close> no branch applies and the step produces \<open>np.pi + 0.005\<close>,
  which is above \<open>\<pi>\<close>.
\<close>

theorem theta_above_pi_after_step:
  "- pi < np_pi \<and> np_pi \<le> pi
   \<and> map_sum id theta_of (state_eq example_env (0, 0, np_pi, 1) [0]) = Inr (np_pi + 0.005)
   \<and> \<not> np_pi + 0.005 \<le> pi"
proof -
  have "- pi < np_pi"
    using np_pi_bounds(1) pi_gt_zero by linarith
  moreover have "np_pi \<le> pi"
    using np_pi_less_pi by simp
  moreover have "\<not> np_pi + 0.005 \<le> pi"
    using pi_less_np_pi_step by simp
  ultimately show ?thesis
    using state_eq_at_np_pi by blast
qed

text \<open>
  C6, amended. For every action and every input state whose angle lies
  strictly inside \<open>(-np.pi, np.pi)\<close>, \<open>np.pi\<close> being the double the code
  compares with, and whose angle changes by at most one turn in the step
  (\<open>|tau * theta_dot| \<le> 2 np.pi\<close>), the angle of the state produced lies in
  \<open>[-np.pi, np.pi]\<close>, and so in \<open>(-\<pi>, \<pi>]\<close>.
\<close>

theorem theta_within_closed_turn:
  "state_eq e (x, xd, th, thd) u = Inr s' \<Longrightarrow> - np_pi < th \<Longrightarrow> th < np_pi \<Longrightarrow>
   \<bar>tau e * thd\<bar> \<le> 2 * np_pi \<Longrightarrow>
     - np_pi \<le> theta_of s' \<and> theta_of s' \<le> np_pi \<and> - pi < theta_of s' \<and> theta_of s' \<le> pi"
proof -
  assume s: "state_eq e (x, xd, th, thd) u = Inr s'"
    and b: "- np_pi < th" "th < np_pi" "\<bar>tau e * thd\<bar> \<le> 2 * np_pi"
  have "- np_pi \<le> theta_of s' \<and> theta_of s' \<le> np_pi"
  proof (cases u)
    case Nil
    with s show ?thesis by (simp add: state_eq_Nil split: if_splits)
  next
    case (Cons u0 us)
    define t1 where "t1 = th + tau e * thd"
    from s Cons have "theta_of s' =
        (if th < np_pi \<and> t1 \<ge> np_pi then t1 - 2 * np_pi
         else if th > - np_pi \<and> t1 \<le> - np_pi then t1 + 2 * np_pi else t1)"
      by (auto simp: state_eq_Cons Let_def theta_of_def t1_def split: if_splits)
    moreover from b have "t1 \<le> th + 2 * np_pi" "th - 2 * np_pi \<le> t1"
      by (simp_all add: t1_def abs_le_iff)
    ultimately show ?thesis using b by (auto split: if_splits)
  qed
  then show ?thesis
    using np_pi_less_pi by linarith
qed

theorem theta_within_closed_turn_witness:
  "state_eq example_env (0, 0, 0, 800) [0] = Inr (0, 0, 4 - 2 * np_pi, 800)
   \<and> - np_pi < 0 \<and> 0 < np_pi \<and> \<bar>tau example_env * 800\<bar> \<le> 2 * np_pi
   \<and> - np_pi \<le> theta_of (0, 0, 4 - 2 * np_pi, 800)
   \<and> theta_of (0, 0, 4 - 2 * np_pi, 800) \<le> np_pi
   \<and> - pi < theta_of (0, 0, 4 - 2 * np_pi, 800)
   \<and> theta_of (0, 0, 4 - 2 * np_pi, 800) \<le> pi"
proof -
  have b: "- np_pi < 0" "0 < np_pi" "\<bar>tau example_env * 800\<bar> \<le> 2 * np_pi"
    using np_pi_bounds(2) by (simp_all add: example_env_fields)
  from theta_within_closed_turn [OF state_eq_wrapped_once b] state_eq_wrapped_once b
  show ?thesis by blast
qed

end
